theory Spec2Isabelle
  imports Main "HOL-Library.Char_ord" "HOL-Library.List_Lexorder"
begin

section \<open>Text helpers (Go's strings and strconv packages)\<close>

text \<open>
  Go strings are byte sequences; they are modelled as \<open>string\<close> (a list of
  \<open>char\<close>).  Only the functions of \<open>strings\<close>, \<open>strconv\<close> and \<open>regexp\<close> that
  the chunker calls are modelled, each for the arguments the chunker passes.
\<close>

text \<open>\<open>strings.Split(s, sep)\<close> for a one-byte separator.  The result is never empty:
  a text without separator is returned as its only token.\<close>

fun Split :: "string \<Rightarrow> char \<Rightarrow> string list" where
  "Split [] sep = [[]]"
| "Split (x # xs) sep =
     (if x = sep then [] # Split xs sep
      else (case Split xs sep of
              [] \<Rightarrow> [[x]]
            | t # ts \<Rightarrow> (x # t) # ts))"

text \<open>\<open>strings.Join(elems, sep)\<close>.\<close>

fun Join :: "string list \<Rightarrow> string \<Rightarrow> string" where
  "Join [] sep = []"
| "Join [x] sep = x"
| "Join (x # y # ys) sep = x @ sep @ Join (y # ys) sep"

text \<open>\<open>strings.HasPrefix\<close> and \<open>strings.Contains\<close>.\<close>

definition HasPrefix :: "string \<Rightarrow> string \<Rightarrow> bool" where
  "HasPrefix s p = (take (length p) s = p)"

fun Contains :: "string \<Rightarrow> string \<Rightarrow> bool" where
  "Contains [] sub = (sub = [])"
| "Contains (x # xs) sub = (HasPrefix (x # xs) sub \<or> Contains xs sub)"

text \<open>\<open>strings.Replace(s, old, new, -1)\<close>: every non-overlapping occurrence of
  \<open>old\<close>, found from left to right, is replaced by \<open>new\<close>.  With an empty \<open>old\<close> Go
  inserts \<open>new\<close> in front of every character and at the end.\<close>

function Replace :: "string \<Rightarrow> string \<Rightarrow> string \<Rightarrow> string" where
  "Replace s old new =
     (if old = [] then new @ concat (map (\<lambda>c. c # new) s)
      else if s = [] then []
      else if HasPrefix s old then new @ Replace (drop (length old) s) old new
      else hd s # Replace (tl s) old new)"
  by pat_completeness auto
termination
  by (relation "measure (\<lambda>(s, old, new). length s)") auto

declare Replace.simps [simp del]

text \<open>\<open>strings.ToLower\<close>.  The function first scans the text: when every byte is
  below \<open>utf8.RuneSelf\<close> (128) it lowers the bytes \<open>A\<close> to \<open>Z\<close> and is done.  Any other
  text goes through \<open>strings.Map(unicode.ToLower, s)\<close>, which works on the case tables
  of the package \<open>unicode\<close>; the tables are not reproduced here, and that function is
  the parameter \<open>special\<close> of the model.\<close>

definition is_ascii :: "char \<Rightarrow> bool" where
  "is_ascii c = ((of_char c :: nat) < 128)"

definition lower_char :: "char \<Rightarrow> char" where
  "lower_char c =
     (let n = (of_char c :: nat) in
      if 65 \<le> n \<and> n \<le> 90 then char_of (n + 32) else c)"

definition ToLower :: "(string \<Rightarrow> string) \<Rightarrow> string \<Rightarrow> string" where
  "ToLower special s = (if list_all is_ascii s then map lower_char s else special s)"

text \<open>The verb \<open>%d\<close> of \<open>fmt.Sprintf\<close>: decimal digits, with a minus sign for a
  negative number.\<close>

definition digit_char :: "nat \<Rightarrow> char" where
  "digit_char n = ''0123456789'' ! (n mod 10)"

function show_nat :: "nat \<Rightarrow> string" where
  "show_nat n =
     (if n < 10 then [digit_char n]
      else show_nat (n div 10) @ [digit_char (n mod 10)])"
  by pat_completeness auto
termination
  by (relation "measure id") auto

declare show_nat.simps [simp del]

definition show_int :: "int \<Rightarrow> string" where
  "show_int i = (if i < 0 then CHR ''-'' # show_nat (nat (- i)) else show_nat (nat i))"

text \<open>\<open>strconv.Atoi\<close>: an optional sign followed by one or more decimal digits, the
  value within the range of a 64-bit \<open>int\<close>; anything else is an error (\<open>None\<close>).\<close>

definition is_digit :: "char \<Rightarrow> bool" where
  "is_digit c = (c \<in> set ''0123456789'')"

definition digit_val :: "char \<Rightarrow> nat" where
  "digit_val c = of_char c - 48"

definition digits_val :: "string \<Rightarrow> nat" where
  "digits_val ds = foldl (\<lambda>acc c. 10 * acc + digit_val c) 0 ds"

definition Atoi :: "string \<Rightarrow> int option" where
  "Atoi s =
     (let neg = (s \<noteq> [] \<and> hd s = CHR ''-'');
          ds = (if s \<noteq> [] \<and> (hd s = CHR ''-'' \<or> hd s = CHR ''+'') then tl s else s)
      in if ds = [] then None
         else if list_all is_digit ds then
           (let v = (if neg then - int (digits_val ds) else int (digits_val ds))
            in if - (2 ^ 63) \<le> v \<and> v < 2 ^ 63 then Some v else None)
         else None)"

text \<open>The increment of an \<open>int\<close> (64 bits): it wraps from the largest value to the
  smallest.\<close>

definition wrap64 :: "int \<Rightarrow> int" where
  "wrap64 x = (x + 2 ^ 63) mod 2 ^ 64 - 2 ^ 63"

text \<open>\<open>regexp.MustCompile(`GO_CHUNK\(([^)]+)\)`).FindStringSubmatch(s)\<close>: the leftmost
  match; the result is the text of the group, the table specification.  At a given
  position the pattern matches in one way only: the group is the longest run of
  characters other than a closing parenthesis, it must not be empty, and a closing
  parenthesis must follow.\<close>

definition match_here :: "string \<Rightarrow> string option" where
  "match_here s =
     (if HasPrefix s ''GO_CHUNK('' then
        (let rest = drop 9 s;
             grp = takeWhile (\<lambda>c. c \<noteq> CHR '')'') rest
         in if grp \<noteq> [] \<and> length grp < length rest then Some grp else None)
      else None)"

fun FindStringSubmatch :: "string \<Rightarrow> string option" where
  "FindStringSubmatch [] = None"
| "FindStringSubmatch (x # xs) =
     (case match_here (x # xs) of
        Some grp \<Rightarrow> Some grp
      | None \<Rightarrow> FindStringSubmatch xs)"

section \<open>Values and faults\<close>

text \<open>A value of type \<open>interface{}\<close> as the driver returns it: \<open>nil\<close> (SQL NULL, or
  a key missing from a row map), an \<open>int64\<close>, or a \<open>string\<close> (byte slices are
  normalised to strings by \<open>QueryRow\<close>).\<close>

datatype val = VNil | VInt int | VStr string

text \<open>The order in which the server sorts values (\<open>ORDER BY\<close>): NULL comes first,
  integers are ordered by value, texts character by character in the order of the
  character codes (a binary collation), a text being greater than its proper
  prefixes.  A column holds values of one type; between an integer and a text the
  order below is only there to make it total.\<close>

instantiation val :: linorder
begin

fun less_eq_val :: "val \<Rightarrow> val \<Rightarrow> bool" where
  "less_eq_val VNil b = True"
| "less_eq_val (VInt x) VNil = False"
| "less_eq_val (VInt x) (VInt y) = (x \<le> y)"
| "less_eq_val (VInt x) (VStr y) = True"
| "less_eq_val (VStr x) (VStr y) = (x \<le> y)"
| "less_eq_val (VStr x) b = False"

definition less_val :: "val \<Rightarrow> val \<Rightarrow> bool" where
  "less_val a b = (a \<le> b \<and> \<not> b \<le> a)"

instance
proof
  fix x y z :: val
  show "(x < y) = (x \<le> y \<and> \<not> y \<le> x)" by (simp add: less_val_def)
  show "x \<le> x" by (cases x) simp_all
  show "x \<le> y \<Longrightarrow> y \<le> z \<Longrightarrow> x \<le> z" by (cases x; cases y; cases z) simp_all
  show "x \<le> y \<Longrightarrow> y \<le> x \<Longrightarrow> x = y" by (cases x; cases y) simp_all
  show "x \<le> y \<or> y \<le> x" by (cases x; cases y) auto
qed

end

text \<open>Everything that stops a function early: the error values of the source
  (\<open>sql.ErrNoRows\<close>, an error reported by the server, an error made with
  \<open>fmt.Errorf\<close>) and a run-time panic (a failed type assertion, an index out of
  range).\<close>

datatype fault = ErrNoRows | DriverError string | Errorf string | Panic string

text \<open>Reading a row map: a missing key gives \<open>nil\<close>.\<close>

definition row_get :: "(string \<rightharpoonup> val) \<Rightarrow> string \<Rightarrow> val" where
  "row_get row k = (case row k of None \<Rightarrow> VNil | Some v \<Rightarrow> v)"

text \<open>The type assertions \<open>x.(int64)\<close> and \<open>x.(string)\<close>, which panic on any other
  dynamic type.\<close>

definition assert_int64 :: "val \<Rightarrow> fault + int" where
  "assert_int64 v =
     (case v of
        VInt i \<Rightarrow> Inr i
      | _ \<Rightarrow> Inl (Panic ''interface conversion: interface {} is not int64''))"

definition assert_string :: "val \<Rightarrow> fault + string" where
  "assert_string v =
     (case v of
        VStr t \<Rightarrow> Inr t
      | _ \<Rightarrow> Inl (Panic ''interface conversion: interface {} is not string''))"

section \<open>The database session (the server behind \<open>DBInterface\<close>)\<close>

text \<open>
  The chunker keeps its window in session variables on the server, in four families
  of \<open>k\<close> variables each: \<open>@unique_key_min_value_i\<close>, \<open>@unique_key_max_value_i\<close>,
  \<open>@unique_key_range_start_i\<close> and \<open>@unique_key_range_end_i\<close>.
\<close>

datatype family = MinValue | MaxValue | RangeStart | RangeEnd

type_synonym var = "family \<times> nat"

definition family_name :: "family \<Rightarrow> string" where
  "family_name f =
     (case f of
        MinValue \<Rightarrow> ''unique_key_min_value_''
      | MaxValue \<Rightarrow> ''unique_key_max_value_''
      | RangeStart \<Rightarrow> ''unique_key_range_start_''
      | RangeEnd \<Rightarrow> ''unique_key_range_end_'')"

definition var_name :: "var \<Rightarrow> string" where
  "var_name v = family_name (fst v) @ show_nat (snd v)"

text \<open>
  Every statement text the chunker sends is represented by a constructor that holds
  the parts of the text the server's answer depends on.

  A literal in a select list: an integer printed in decimal, a text between single
  quotes, or a text copied into the statement as it is.
\<close>

datatype literal = LitInt int | LitQuoted string | LitRaw string

datatype order_dir = Asc | Desc

datatype low_op = GreaterEq | GreaterThan

text \<open>Statements sent with \<open>Exec\<close>:
  \<^item> \<open>SetLogBinOff\<close>: \<^verbatim>\<open>SET SESSION SQL_LOG_BIN=0\<close>;
  \<^item> \<open>SelectLitsInto lits vs\<close>: \<^verbatim>\<open>SELECT <lits> INTO <vs>\<close>;
  \<^item> \<open>SelectVarsInto src dst\<close>: \<^verbatim>\<open>SELECT <src> INTO <dst>\<close>;
  \<^item> \<open>SelectKeyInto dir cols vs\<close>:
    \<^verbatim>\<open>SELECT <cols> INTO <vs> FROM <db>.<table> ORDER BY <cols> [DESC] LIMIT 1\<close>;
  \<^item> \<open>ChunkStmt text op lo hi\<close>: the rewritten user statement \<open>text\<close>, whose range
    predicate is \<^verbatim>\<open><key> <op> <lo> AND <key> < <hi>\<close>.\<close>

datatype stmt =
    SetLogBinOff
  | SelectLitsInto "literal list" "var list"
  | SelectVarsInto "var list" "var list"
  | SelectKeyInto order_dir "string list" "var list"
  | ChunkStmt string low_op "var list" "var list"

text \<open>Statements sent with \<open>QueryRow\<close>:
  \<^item> \<open>UserQuery text\<close>: a statement given by the user (\<open>--start-with\<close>, \<open>--end-with\<close>);
  \<^item> \<open>RangeExists\<close>:
    \<^verbatim>\<open>SELECT COUNT(*) AS range_exists FROM (SELECT NULL FROM <db>.<table> LIMIT 1) SEL1\<close>;
  \<^item> \<open>SelectVar v\<close>: \<^verbatim>\<open>SELECT @<v> AS <v>\<close>;
  \<^item> \<open>SelectVarGe a b\<close>: \<^verbatim>\<open>SELECT @<a> >= @<b> AS overflow\<close>;
  \<^item> \<open>Probe cols lo hi limit\<close>:
    \<^verbatim>\<open>SELECT <cols> FROM (SELECT <cols> FROM <db>.<table> WHERE <key> > <lo> AND <key> <= <hi>
      ORDER BY <cols> LIMIT <limit>) t ORDER BY <cols> DESC LIMIT 1\<close>.\<close>

datatype query =
    UserQuery string
  | RangeExists
  | SelectVar var
  | SelectVarGe var var
  | Probe "string list" "var list" "var list" int

datatype call =
    CallExec stmt
  | CallQueryRow query
  | CallTableExists string string
  | CallGetPossibleUniqueKeyColumns string string
  | CallLockTableRead string string
  | CallUnlockTables

text \<open>
  The session: the table, as the list of the chunking-key tuples of its rows; the
  session variables (\<open>VNil\<close> when never assigned); what the information schema says;
  the answers of the server to the user's own statements; the effect of the user's
  chunk statement on the key tuples of the table, given the rows its range predicate
  selects (the identity for an \<open>UPDATE\<close> of other columns); and two histories, the
  calls received and the row sets selected by the chunk statements.
\<close>

record session =
  keys :: "val list list"
  vars :: "var \<Rightarrow> val"
  table_exists :: bool
  unique_keys :: "(string \<rightharpoonup> val) list"
  answers :: "string \<Rightarrow> fault + (string \<rightharpoonup> val)"
  effect :: "val list list \<Rightarrow> val list list \<Rightarrow> val list list"
  calls :: "call list"
  targeted :: "val list list list"

text \<open>Comparison in a \<open>WHERE\<close> clause.  Two integers and two texts compare as they
  are ordered; a comparison with NULL is NULL (\<open>None\<close>), and the model gives the same
  answer for an integer against a text, where the server would convert the operands.
  Rows compare lexicographically, and a comparison is never true when the two rows
  differ in width (the chunker compares a key of \<open>k\<close> columns with \<open>k\<close> variables).\<close>

datatype cmp = LT | EQ | GT

definition val_cmp :: "val \<Rightarrow> val \<Rightarrow> cmp option" where
  "val_cmp a b =
     (case (a, b) of
        (VInt x, VInt y) \<Rightarrow> Some (if x < y then LT else if y < x then GT else EQ)
      | (VStr x, VStr y) \<Rightarrow> Some (if x < y then LT else if y < x then GT else EQ)
      | _ \<Rightarrow> None)"

fun tuple_cmp :: "val list \<Rightarrow> val list \<Rightarrow> cmp option" where
  "tuple_cmp [] [] = Some EQ"
| "tuple_cmp (a # as) (b # bs) =
     (case val_cmp a b of
        Some EQ \<Rightarrow> tuple_cmp as bs
      | r \<Rightarrow> r)"
| "tuple_cmp _ _ = None"

definition row_cmp :: "val list \<Rightarrow> val list \<Rightarrow> cmp option" where
  "row_cmp r vs = (if length r = length vs then tuple_cmp r vs else None)"

definition row_gt :: "val list \<Rightarrow> val list \<Rightarrow> bool" where
  "row_gt r vs = (row_cmp r vs = Some GT)"

definition row_ge :: "val list \<Rightarrow> val list \<Rightarrow> bool" where
  "row_ge r vs = (row_cmp r vs = Some GT \<or> row_cmp r vs = Some EQ)"

definition row_lt :: "val list \<Rightarrow> val list \<Rightarrow> bool" where
  "row_lt r vs = (row_cmp r vs = Some LT)"

definition row_le :: "val list \<Rightarrow> val list \<Rightarrow> bool" where
  "row_le r vs = (row_cmp r vs = Some LT \<or> row_cmp r vs = Some EQ)"

definition low_holds :: "low_op \<Rightarrow> val list \<Rightarrow> val list \<Rightarrow> bool" where
  "low_holds op r vs = (case op of GreaterEq \<Rightarrow> row_ge r vs | GreaterThan \<Rightarrow> row_gt r vs)"

text \<open>The scalar comparison \<open>@a >= @b\<close>: 1 or 0, NULL when the comparison is.\<close>

definition val_ge :: "val \<Rightarrow> val \<Rightarrow> val" where
  "val_ge a b =
     (case val_cmp a b of
        None \<Rightarrow> VNil
      | Some LT \<Rightarrow> VInt 0
      | Some r \<Rightarrow> VInt 1)"

text \<open>The first row of \<^verbatim>\<open>ORDER BY c1, ..., ck LIMIT 1\<close> and of
  \<^verbatim>\<open>ORDER BY c1, ..., ck DESC LIMIT 1\<close>.  In SQL the keyword \<open>DESC\<close> belongs to the
  last column only: the second order is ascending in \<open>c1, ..., c(k-1)\<close> and descending
  in \<open>ck\<close>, so its first row is, among the rows that agree with the least row on
  \<open>c1, ..., c(k-1)\<close>, the one with the greatest \<open>ck\<close>.  For one column it is the
  greatest row.\<close>

definition order_first :: "order_dir \<Rightarrow> val list list \<Rightarrow> val list option" where
  "order_first dir rows =
     (case sort rows of
        [] \<Rightarrow> None
      | r # rs \<Rightarrow>
          (case dir of
             Asc \<Rightarrow> Some r
           | Desc \<Rightarrow> Some (last (r # filter (\<lambda>x. butlast x = butlast r) rs))))"

text \<open>How the server reads the text between the quotes of a string literal (default
  SQL mode): a backslash starts an escape sequence, two quotes stand for one.  A
  single quote inside the text ends the literal early, and so does a backslash in
  front of the closing quote leave it open: the model takes the statement as
  malformed in both cases (\<open>None\<close>).\<close>

definition escape :: "char \<Rightarrow> string" where
  "escape d =
     (if d = CHR ''0'' then [CHR 0x00]
      else if d = CHR ''b'' then [CHR 0x08]
      else if d = CHR ''n'' then [CHR 0x0A]
      else if d = CHR ''r'' then [CHR 0x0D]
      else if d = CHR ''t'' then [CHR 0x09]
      else if d = CHR ''Z'' then [CHR 0x1A]
      else if d = CHR ''%'' \<or> d = CHR ''_'' then [CHR 0x5C, d]
      else [d])"

fun unquote :: "string \<Rightarrow> string option" where
  "unquote [] = Some []"
| "unquote [c] = (if c = CHR 0x5C \<or> c = CHR 0x27 then None else Some [c])"
| "unquote (c # d # cs) =
     (if c = CHR 0x5C then map_option ((@) (escape d)) (unquote cs)
      else if c = CHR 0x27 then
        (if d = CHR 0x27 then map_option ((#) d) (unquote cs) else None)
      else map_option ((#) c) (unquote (d # cs)))"

text \<open>The value of an entry of a select list.  A text copied into the statement as
  it is gives a value when it is an integer literal; the model knows no other
  expression.\<close>

definition lit_val :: "literal \<Rightarrow> val option" where
  "lit_val l =
     (case l of
        LitInt i \<Rightarrow> Some (VInt i)
      | LitQuoted t \<Rightarrow> map_option VStr (unquote t)
      | LitRaw t \<Rightarrow> map_option VInt (Atoi t))"

fun lits_vals :: "literal list \<Rightarrow> val list option" where
  "lits_vals [] = Some []"
| "lits_vals (l # ls) =
     (case lit_val l of
        None \<Rightarrow> None
      | Some v \<Rightarrow> map_option ((#) v) (lits_vals ls))"

definition assign :: "var list \<Rightarrow> val list \<Rightarrow> session \<Rightarrow> session" where
  "assign dst vs s = s\<lparr>vars := fold (\<lambda>(v, x) f. f(v := x)) (zip dst vs) (vars s)\<rparr>"

definition log_call :: "call \<Rightarrow> session \<Rightarrow> session" where
  "log_call c s = s\<lparr>calls := calls s @ [c]\<rparr>"

text \<open>\<open>Exec\<close>: the number of affected rows, or an error.  A select list and a
  variable list of different lengths are an error, and so are a literal the server
  cannot read and a statement in which the token \<^verbatim>\<open>GO_CHUNK(\<close> is left (no such
  function exists on the server).  \<open>SELECT ... INTO\<close> on an empty table assigns
  nothing.  A chunk statement selects the rows of its range predicate and has its
  effect on the table.\<close>

definition Exec :: "stmt \<Rightarrow> session \<Rightarrow> (fault + int) \<times> session" where
  "Exec st s0 =
     (let s = log_call (CallExec st) s0 in
      case st of
        SetLogBinOff \<Rightarrow> (Inr 0, s)
      | SelectLitsInto lits dst \<Rightarrow>
          (case lits_vals lits of
             None \<Rightarrow> (Inl (DriverError ''You have an error in your SQL syntax''), s)
           | Some vs \<Rightarrow>
               if length vs \<noteq> length dst
               then (Inl (DriverError ''The used SELECT statements have a different number of columns''), s)
               else (Inr 1, assign dst vs s))
      | SelectVarsInto src dst \<Rightarrow>
          (if length src \<noteq> length dst
           then (Inl (DriverError ''The used SELECT statements have a different number of columns''), s)
           else (Inr 1, assign dst (map (vars s) src) s))
      | SelectKeyInto dir cols dst \<Rightarrow>
          (case order_first dir (keys s) of
             None \<Rightarrow> (Inr 0, s)
           | Some row \<Rightarrow>
               if length row \<noteq> length dst
               then (Inl (DriverError ''The used SELECT statements have a different number of columns''), s)
               else (Inr 1, assign dst row s))
      | ChunkStmt text op lo hi \<Rightarrow>
          (if Contains text ''GO_CHUNK(''
           then (Inl (DriverError ''FUNCTION GO_CHUNK does not exist''), s)
           else (let rows = filter (\<lambda>r. low_holds op r (map (vars s) lo)
                                        \<and> row_lt r (map (vars s) hi)) (keys s)
                 in (Inr (int (length rows)),
                     s\<lparr>keys := effect s rows (keys s), targeted := targeted s @ [rows]\<rparr>))))"

text \<open>\<open>QueryRow\<close>: one row, as a map from column name to value, or \<open>sql.ErrNoRows\<close>
  when the result is empty.  The map is filled column by column, so that of two
  columns with one name the later one stays.  A negative \<open>LIMIT\<close> is a syntax
  error.\<close>

definition row_map :: "string list \<Rightarrow> val list \<Rightarrow> (string \<rightharpoonup> val)" where
  "row_map cols vs = map_of (rev (zip cols vs))"

definition QueryRow :: "query \<Rightarrow> session \<Rightarrow> (fault + (string \<rightharpoonup> val)) \<times> session" where
  "QueryRow q s0 =
     (let s = log_call (CallQueryRow q) s0 in
      case q of
        UserQuery text \<Rightarrow> (answers s text, s)
      | RangeExists \<Rightarrow>
          (Inr (row_map [''range_exists''] [VInt (if keys s = [] then 0 else 1)]), s)
      | SelectVar v \<Rightarrow> (Inr (row_map [var_name v] [vars s v]), s)
      | SelectVarGe a b \<Rightarrow> (Inr (row_map [''overflow''] [val_ge (vars s a) (vars s b)]), s)
      | Probe cols lo hi limit \<Rightarrow>
          (if limit < 0
           then (Inl (DriverError ''You have an error in your SQL syntax''), s)
           else (case order_first Desc
                         (take (nat limit)
                            (sort (filter (\<lambda>r. row_gt r (map (vars s) lo)
                                              \<and> row_le r (map (vars s) hi)) (keys s)))) of
                   None \<Rightarrow> (Inl ErrNoRows, s)
                 | Some r \<Rightarrow> (Inr (row_map cols r), s))))"

definition TableExists :: "string \<Rightarrow> string \<Rightarrow> session \<Rightarrow> (fault + bool) \<times> session" where
  "TableExists db tbl s = (Inr (table_exists s), log_call (CallTableExists db tbl) s)"

definition GetPossibleUniqueKeyColumns ::
  "string \<Rightarrow> string \<Rightarrow> session \<Rightarrow> (fault + (string \<rightharpoonup> val) list) \<times> session" where
  "GetPossibleUniqueKeyColumns db tbl s =
     (Inr (unique_keys s), log_call (CallGetPossibleUniqueKeyColumns db tbl) s)"

definition LockTableRead :: "string \<Rightarrow> string \<Rightarrow> session \<Rightarrow> (fault + unit) \<times> session" where
  "LockTableRead db tbl s = (Inr (), log_call (CallLockTableRead db tbl) s)"

definition UnlockTables :: "session \<Rightarrow> (fault + unit) \<times> session" where
  "UnlockTables s = (Inr (), log_call CallUnlockTables s)"

text \<open>Sequencing of calls on the session: the first fault ends the computation, as
  \<^verbatim>\<open>if err != nil { return err }\<close> and a panic do.\<close>

definition bind ::
  "(session \<Rightarrow> (fault + 'a) \<times> session) \<Rightarrow> ('a \<Rightarrow> session \<Rightarrow> (fault + 'b) \<times> session)
     \<Rightarrow> session \<Rightarrow> (fault + 'b) \<times> session" where
  "bind m f s = (case m s of (Inl e, s') \<Rightarrow> (Inl e, s') | (Inr x, s') \<Rightarrow> f x s')"

definition ret :: "'a \<Rightarrow> session \<Rightarrow> (fault + 'a) \<times> session" where
  "ret x s = (Inr x, s)"

definition fail :: "fault \<Rightarrow> session \<Rightarrow> (fault + 'a) \<times> session" where
  "fail e s = (Inl e, s)"

definition lift :: "fault + 'a \<Rightarrow> session \<Rightarrow> (fault + 'a) \<times> session" where
  "lift r s = (r, s)"

section \<open>The chunker (\<open>internal/chunk/chunk.go\<close>)\<close>

text \<open>The fields of \<open>Config\<close> that decide what the chunker does.  \<open>Verbose\<close>, \<open>Debug\<close>,
  \<open>SleepMillis\<close> and \<open>SleepRatio\<close> only print or wait, \<open>TerminateOnNotFound\<close> and
  \<open>SkipRetryChunk\<close> are never read; printing, timing and the progress percentage are
  left out.\<close>

record Config =
  Database :: string
  Table :: string
  UniqueKeyColumnNames :: string
  CountColumnsInUniqueKey :: int
  UniqueKeyType :: string
  UniqueKeyColumnNamesList :: "string list"
  ChunkSize :: int
  StartWith :: string
  EndWith :: string
  ForcedChunkingColumn :: string
  NoLogBin :: bool

subsection \<open>\<open>GetSelectedUniqueKeyColumnNames\<close>\<close>

definition classify :: "val \<Rightarrow> string \<Rightarrow> fault + string" where
  "classify charSet dataType =
     (let by_type =
            (if Contains dataType ''int'' then ''integer''
             else if Contains dataType ''time'' \<or> Contains dataType ''date'' then ''temporal''
             else [])
      in case charSet of
           VNil \<Rightarrow> Inr by_type
         | VStr t \<Rightarrow> Inr (if t \<noteq> [] then ''text'' else by_type)
         | VInt i \<Rightarrow> Inl (Panic ''interface conversion: interface {} is not string''))"

definition GetSelectedUniqueKeyColumnNames ::
  "(string \<Rightarrow> string) \<Rightarrow> Config \<Rightarrow> session \<Rightarrow> (fault + string \<times> int \<times> string) \<times> session" where
  "GetSelectedUniqueKeyColumnNames special c =
     (if ForcedChunkingColumn c \<noteq> [] then
        (let tokens = Split (ForcedChunkingColumn c) (CHR '','') in
         if length tokens > 1 then ret (ForcedChunkingColumn c, int (length tokens), [])
         else if Contains (ForcedChunkingColumn c) '':'' then
           (let parts = Split (ForcedChunkingColumn c) (CHR '':'') in
            if length parts < 2 then fail (Panic ''index out of range'')
            else ret (parts ! 0, 1, parts ! 1))
         else ret (ForcedChunkingColumn c, 1, []))
      else
        bind (GetPossibleUniqueKeyColumns (Database c) (Table c)) (\<lambda>rows.
          case rows of
            [] \<Rightarrow> ret ([], 0, [])
          | row # others \<Rightarrow>
              bind (lift (assert_string (row_get row ''COLUMN_NAMES''))) (\<lambda>names.
              bind (lift (assert_int64 (row_get row ''COUNT_COLUMN_IN_INDEX''))) (\<lambda>countColumns.
              bind (lift (assert_string (row_get row ''DATA_TYPE''))) (\<lambda>dataType.
              bind (lift (classify (row_get row ''CHARACTER_SET_NAME'') (ToLower special dataType)))
                (\<lambda>uniqueKeyType. ret (ToLower special names, countColumns, uniqueKeyType)))))))"

subsection \<open>Names of the session variables\<close>

text \<open>\<open>getUniqueKeyMinValuesVariables\<close> and its three siblings make a slice of
  \<open>CountColumnsInUniqueKey\<close> names, which panics for a negative count, fill it for
  \<open>i = 0, ..., CountColumnsInUniqueKey - 1\<close> and join the names with commas.
  \<open>key_vars\<close> is the list of the variables, \<open>vars_text\<close> its text.\<close>

definition key_vars :: "Config \<Rightarrow> family \<Rightarrow> fault + var list" where
  "key_vars c f =
     (if CountColumnsInUniqueKey c < 0 then Inl (Panic ''makeslice: len out of range'')
      else Inr (map (Pair f) [0..<nat (CountColumnsInUniqueKey c)]))"

definition vars_text :: "var list \<Rightarrow> string" where
  "vars_text vs = Join (map (\<lambda>v. CHR ''@'' # var_name v) vs) '',''"

definition getUniqueKeyMinValuesVariables :: "Config \<Rightarrow> fault + string" where
  "getUniqueKeyMinValuesVariables c = map_sum id vars_text (key_vars c MinValue)"

definition getUniqueKeyMaxValuesVariables :: "Config \<Rightarrow> fault + string" where
  "getUniqueKeyMaxValuesVariables c = map_sum id vars_text (key_vars c MaxValue)"

definition getUniqueKeyRangeStartVariables :: "Config \<Rightarrow> fault + string" where
  "getUniqueKeyRangeStartVariables c = map_sum id vars_text (key_vars c RangeStart)"

definition getUniqueKeyRangeEndVariables :: "Config \<Rightarrow> fault + string" where
  "getUniqueKeyRangeEndVariables c = map_sum id vars_text (key_vars c RangeEnd)"

definition getSessionVariableValue :: "var \<Rightarrow> session \<Rightarrow> (fault + val) \<times> session" where
  "getSessionVariableValue v =
     bind (QueryRow (SelectVar v)) (\<lambda>row. ret (row_get row (var_name v)))"

subsection \<open>\<open>GetUniqueKeyRange\<close>\<close>

text \<open>The lower bound (the first \<open>if\<close> of the function); \<open>minVars\<close> are the variables
  the function has named at its entry.\<close>

definition seed_min :: "Config \<Rightarrow> var list \<Rightarrow> session \<Rightarrow> (fault + unit) \<times> session" where
  "seed_min c minVars =
     (if StartWith c \<noteq> [] then
        (if UniqueKeyType c = ''integer'' \<and> CountColumnsInUniqueKey c = 1 then
           (case Atoi (StartWith c) of
              Some startInt \<Rightarrow>
                bind (Exec (SelectLitsInto [LitInt startInt] minVars)) (\<lambda>n. ret ())
            | None \<Rightarrow>
                bind (QueryRow (UserQuery (StartWith c))) (\<lambda>row.
                bind (lift (assert_int64 (row_get row ''start_with''))) (\<lambda>startInt.
                bind (Exec (SelectLitsInto [LitInt startInt] minVars)) (\<lambda>n. ret ()))))
         else fail (Errorf ''--start-with only applies to single column integer chunking keys''))
      else
        bind (Exec (SelectKeyInto Asc (Split (UniqueKeyColumnNames c) (CHR '','')) minVars))
          (\<lambda>n. ret ()))"

text \<open>The upper bound (the second \<open>if\<close>).\<close>

definition seed_max :: "Config \<Rightarrow> var list \<Rightarrow> session \<Rightarrow> (fault + unit) \<times> session" where
  "seed_max c maxVars =
     (if EndWith c \<noteq> [] then
        (if UniqueKeyType c = ''integer'' \<and> CountColumnsInUniqueKey c = 1 then
           (case Atoi (EndWith c) of
              Some endInt \<Rightarrow>
                bind (Exec (SelectLitsInto [LitInt endInt] maxVars)) (\<lambda>n. ret ())
            | None \<Rightarrow>
                bind (QueryRow (UserQuery (EndWith c))) (\<lambda>row.
                bind (lift (assert_int64 (row_get row ''end_with''))) (\<lambda>endInt.
                bind (Exec (SelectLitsInto [LitInt endInt] maxVars)) (\<lambda>n. ret ()))))
         else fail (Errorf ''--end-with only applies to single column integer chunking keys''))
      else
        bind (Exec (SelectKeyInto Desc (Split (UniqueKeyColumnNames c) (CHR '','')) maxVars))
          (\<lambda>n. ret ()))"

text \<open>The loop that reads the bounds back, for \<open>i = 0, ..., CountColumnsInUniqueKey - 1\<close>.\<close>

fun read_bounds :: "nat list \<Rightarrow> session \<Rightarrow> (fault + val list \<times> val list) \<times> session" where
  "read_bounds [] = ret ([], [])"
| "read_bounds (i # is) =
     bind (getSessionVariableValue (MinValue, i)) (\<lambda>minVal.
     bind (getSessionVariableValue (MaxValue, i)) (\<lambda>maxVal.
     bind (read_bounds is) (\<lambda>(minValues, maxValues).
       ret (minVal # minValues, maxVal # maxValues))))"

text \<open>The function names its variables first (the two calls at its entry), then sets
  the bounds.  The result is \<open>(minValues, maxValues, rangeExists)\<close>.\<close>

definition GetUniqueKeyRange ::
  "Config \<Rightarrow> session \<Rightarrow> (fault + val list \<times> val list \<times> bool) \<times> session" where
  "GetUniqueKeyRange c =
     bind (lift (key_vars c MinValue)) (\<lambda>minVars.
     bind (lift (key_vars c MaxValue)) (\<lambda>maxVars.
     bind (seed_min c minVars) (\<lambda>u.
     bind (seed_max c maxVars) (\<lambda>u.
     bind (QueryRow RangeExists) (\<lambda>row.
       (let v = row_get row ''range_exists'' in
        bind (if v = VNil then ret False
              else bind (lift (assert_int64 v)) (\<lambda>n. ret (n > 0))) (\<lambda>rangeExists.
          if rangeExists then
            bind (read_bounds [0..<nat (CountColumnsInUniqueKey c)]) (\<lambda>(minValues, maxValues).
              ret (minValues, maxValues, True))
          else ret ([], [], False))))))))"

subsection \<open>\<open>ChunkUpdate\<close>\<close>

text \<open>"Build queries".  The text that is replaced is \<open>GO_CHUNK(\<close>, the table name of the
  configuration, and \<open>)\<close>.  For a key of one column the predicate names the variables
  with index 0; otherwise the function first names the variables of the three
  families.\<close>

definition sentinel :: "Config \<Rightarrow> string" where
  "sentinel c = ''GO_CHUNK('' @ Table c @ '')''"

definition firstQuery :: "Config \<Rightarrow> string \<Rightarrow> fault + string" where
  "firstQuery c executeQuery =
     (if CountColumnsInUniqueKey c = 1 then
        Inr (Replace executeQuery (sentinel c)
               (UniqueKeyColumnNames c @ '' >= @unique_key_min_value_0 AND ''
                  @ UniqueKeyColumnNames c @ '' < @unique_key_range_end_0''))
      else
        (case (getUniqueKeyMinValuesVariables c, getUniqueKeyRangeStartVariables c,
               getUniqueKeyRangeEndVariables c) of
           (Inr minVars, Inr startVars, Inr endVars) \<Rightarrow>
             Inr (Replace executeQuery (sentinel c)
                    (''('' @ UniqueKeyColumnNames c @ '') >= ('' @ minVars
                       @ '') AND ('' @ UniqueKeyColumnNames c @ '') < ('' @ endVars @ '')''))
         | (Inl err, x) \<Rightarrow> Inl err
         | (Inr minVars, Inl err, x) \<Rightarrow> Inl err
         | (Inr minVars, Inr startVars, Inl err) \<Rightarrow> Inl err))"

definition restQuery :: "Config \<Rightarrow> string \<Rightarrow> fault + string" where
  "restQuery c executeQuery =
     (if CountColumnsInUniqueKey c = 1 then
        Inr (Replace executeQuery (sentinel c)
               (UniqueKeyColumnNames c @ '' > @unique_key_range_start_0 AND ''
                  @ UniqueKeyColumnNames c @ '' < @unique_key_range_end_0''))
      else
        (case (getUniqueKeyMinValuesVariables c, getUniqueKeyRangeStartVariables c,
               getUniqueKeyRangeEndVariables c) of
           (Inr minVars, Inr startVars, Inr endVars) \<Rightarrow>
             Inr (Replace executeQuery (sentinel c)
                    (''('' @ UniqueKeyColumnNames c @ '') > ('' @ startVars
                       @ '') AND ('' @ UniqueKeyColumnNames c @ '') < ('' @ endVars @ '')''))
         | (Inl err, x) \<Rightarrow> Inl err
         | (Inr minVars, Inl err, x) \<Rightarrow> Inl err
         | (Inr minVars, Inr startVars, Inl err) \<Rightarrow> Inl err))"

text \<open>The variables a statement names: the ones with index 0 in the branch for
  \<open>CountColumnsInUniqueKey == 1\<close>, the whole family in the other branch.\<close>

definition branch_vars :: "Config \<Rightarrow> family \<Rightarrow> fault + var list" where
  "branch_vars c f = (if CountColumnsInUniqueKey c = 1 then Inr [(f, 0)] else key_vars c f)"

text \<open>The two chunk statements as the server receives them: the text of the template
  and the variables its range predicate names.\<close>

definition firstStmt :: "Config \<Rightarrow> string \<Rightarrow> fault + stmt" where
  "firstStmt c executeQuery =
     (case (firstQuery c executeQuery, branch_vars c MinValue, branch_vars c RangeEnd) of
        (Inr text, Inr lo, Inr hi) \<Rightarrow> Inr (ChunkStmt text GreaterEq lo hi)
      | (Inl err, x) \<Rightarrow> Inl err
      | (Inr text, Inl err, x) \<Rightarrow> Inl err
      | (Inr text, Inr lo, Inl err) \<Rightarrow> Inl err)"

definition restStmt :: "Config \<Rightarrow> string \<Rightarrow> fault + stmt" where
  "restStmt c executeQuery =
     (case (restQuery c executeQuery, branch_vars c RangeStart, branch_vars c RangeEnd) of
        (Inr text, Inr lo, Inr hi) \<Rightarrow> Inr (ChunkStmt text GreaterThan lo hi)
      | (Inl err, x) \<Rightarrow> Inl err
      | (Inr text, Inl err, x) \<Rightarrow> Inl err
      | (Inr text, Inr lo, Inl err) \<Rightarrow> Inl err)"

text \<open>The text of the probed value in \<open>SELECT ... INTO\<close>: for one column, a string
  goes in as it is and an \<open>int64\<close> in decimal; for several columns a string goes in
  between single quotes; any other value goes through \<open>%v\<close>.\<close>

definition single_literal :: "val \<Rightarrow> literal" where
  "single_literal v =
     (case v of VStr t \<Rightarrow> LitRaw t | VInt i \<Rightarrow> LitInt i | VNil \<Rightarrow> LitRaw ''<nil>'')"

definition tuple_literal :: "val \<Rightarrow> literal" where
  "tuple_literal v =
     (case v of VStr t \<Rightarrow> LitQuoted t | VInt i \<Rightarrow> LitInt i | VNil \<Rightarrow> LitRaw ''<nil>'')"

text \<open>"Set range end": the probe, and the assignment of the window's end.  \<open>vals\<close>
  has \<open>CountColumnsInUniqueKey\<close> slots, and the loop over \<open>UniqueKeyColumnNamesList\<close>
  panics when the list is longer.\<close>

definition set_range_end :: "Config \<Rightarrow> int \<Rightarrow> session \<Rightarrow> (fault + unit) \<times> session" where
  "set_range_end c limit =
     bind (lift (branch_vars c RangeStart)) (\<lambda>startVars.
     bind (lift (branch_vars c MaxValue)) (\<lambda>maxVars. (\<lambda>s.
       (case QueryRow (Probe (Split (UniqueKeyColumnNames c) (CHR '','')) startVars maxVars limit) s of
          (Inl err, s1) \<Rightarrow>
            if err = ErrNoRows then
              bind (lift (branch_vars c RangeEnd)) (\<lambda>endVars.
              bind (Exec (SelectVarsInto maxVars endVars)) (\<lambda>n. ret ())) s1
            else (Inl err, s1)
        | (Inr row, s1) \<Rightarrow>
            if CountColumnsInUniqueKey c = 1 then
              bind (Exec (SelectLitsInto [single_literal (row_get row (UniqueKeyColumnNames c))]
                            [(RangeEnd, 0)])) (\<lambda>n. ret ()) s1
            else if length (UniqueKeyColumnNamesList c) > nat (CountColumnsInUniqueKey c) then
              (Inl (Panic ''index out of range''), s1)
            else
              bind (lift (key_vars c RangeEnd)) (\<lambda>endVars.
              bind (Exec (SelectLitsInto
                            (map (\<lambda>col. tuple_literal (row_get row col)) (UniqueKeyColumnNamesList c)
                               @ replicate (nat (CountColumnsInUniqueKey c)
                                              - length (UniqueKeyColumnNamesList c)) (LitRaw []))
                            endVars)) (\<lambda>n. ret ())) s1))))"

text \<open>"Check if overflow": the result says whether the loop breaks.\<close>

definition overflow_check :: "bool \<Rightarrow> session \<Rightarrow> (fault + bool) \<times> session" where
  "overflow_check firstRound =
     (if \<not> firstRound then
        bind (QueryRow (SelectVarGe (RangeStart, 0) (MaxValue, 0))) (\<lambda>row.
        bind (lift (assert_int64 (row_get row ''overflow''))) (\<lambda>n. ret (n = 1)))
      else ret False)"

text \<open>One pass through the body of the \<open>for\<close> loop, with the two chunk statements
  built in front of the loop.  The result is \<open>True\<close> when the body reaches its end
  (the loop goes on with \<open>firstRound = false\<close>) and \<open>False\<close> at the \<open>break\<close>.\<close>

definition ChunkUpdate_body ::
  "Config \<Rightarrow> stmt \<Rightarrow> stmt \<Rightarrow> bool \<Rightarrow> session \<Rightarrow> (fault + bool) \<times> session" where
  "ChunkUpdate_body c first rest firstRound =
     (let limit = (if \<not> firstRound then wrap64 (ChunkSize c + 1) else ChunkSize c) in
      bind (set_range_end c limit) (\<lambda>u.
      bind (getSessionVariableValue (RangeStart, 0)) (\<lambda>startVal.
      bind (getSessionVariableValue (RangeEnd, 0)) (\<lambda>endVal.
      bind (overflow_check firstRound) (\<lambda>overflow.
        if overflow then ret False
        else
          bind (Exec (if firstRound then first else rest)) (\<lambda>affected.
          bind (Exec (SelectVarsInto [(RangeEnd, 0)] [(RangeStart, 0)])) (\<lambda>n. ret True)))))))"

text \<open>The \<open>for\<close> loop has no bound of its own: the model counts the passes it may
  still make, and \<open>None\<close> says that the loop did not end within that count.\<close>

fun ChunkUpdate_loop ::
  "nat \<Rightarrow> Config \<Rightarrow> stmt \<Rightarrow> stmt \<Rightarrow> bool \<Rightarrow> session \<Rightarrow> ((fault + unit) \<times> session) option" where
  "ChunkUpdate_loop 0 c first rest firstRound s = None"
| "ChunkUpdate_loop (Suc fuel) c first rest firstRound s =
     (case ChunkUpdate_body c first rest firstRound s of
        (Inl err, s1) \<Rightarrow> Some (Inl err, s1)
      | (Inr False, s1) \<Rightarrow> Some (Inr (), s1)
      | (Inr True, s1) \<Rightarrow> ChunkUpdate_loop fuel c first rest False s1)"

text \<open>What comes before the loop: the session directive, the two reads for the
  progress display, "Build queries" and "Set initial range".  The result is the pair
  of chunk statements.\<close>

definition ChunkUpdate_init ::
  "Config \<Rightarrow> string \<Rightarrow> session \<Rightarrow> (fault + stmt \<times> stmt) \<times> session" where
  "ChunkUpdate_init c executeQuery =
     bind (if NoLogBin c then bind (Exec SetLogBinOff) (\<lambda>n. ret ()) else ret ()) (\<lambda>u.
     bind (getSessionVariableValue (MinValue, 0)) (\<lambda>minVal.
     bind (getSessionVariableValue (MaxValue, 0)) (\<lambda>maxVal.
     bind (lift (firstStmt c executeQuery)) (\<lambda>first.
     bind (lift (restStmt c executeQuery)) (\<lambda>rest.
     bind (lift (branch_vars c MinValue)) (\<lambda>minVars.
     bind (lift (branch_vars c RangeStart)) (\<lambda>startVars.
     bind (Exec (SelectVarsInto minVars startVars)) (\<lambda>n. ret (first, rest)))))))))"

definition ChunkUpdate ::
  "nat \<Rightarrow> Config \<Rightarrow> string \<Rightarrow> session \<Rightarrow> ((fault + unit) \<times> session) option" where
  "ChunkUpdate fuel c executeQuery s =
     (case ChunkUpdate_init c executeQuery s of
        (Inl err, s1) \<Rightarrow> Some (Inl err, s1)
      | (Inr (first, rest), s1) \<Rightarrow> ChunkUpdate_loop fuel c first rest True s1)"

section \<open>The command (\<open>runChunkUpdate\<close>)\<close>

text \<open>The command-line flags that reach the chunker, with the names of the source's
  variables.  The flags of the connection are left out: the session is taken as
  opened.\<close>

record Flags =
  execute :: string
  database :: string
  chunkSize :: int
  startWith :: string
  endWith :: string
  forceColumn :: string
  skipLock :: bool
  noLogBin :: bool

text \<open>How the process ends: a normal return (exit status 0, with the line it
  printed, if any); a message followed by \<open>os.Exit(1)\<close>; \<open>log.Fatal\<close> with the
  name of the phase and the error (exit status 1); or a panic.\<close>

datatype outcome =
    Returned string
  | ExitError string
  | ExitFatal string fault
  | Panicked string

text \<open>The checks made before the connection is opened.  The result is the message
  of the failed check, or the database and table names.\<close>

definition parse_flags :: "Flags \<Rightarrow> string + string \<times> string" where
  "parse_flags f =
     (if execute f = [] then Inl ''Error: --execute is required''
      else (case FindStringSubmatch (execute f) of
              None \<Rightarrow> Inl ''Error: Query must contain GO_CHUNK(table_name)''
            | Some tableSpec \<Rightarrow>
                (let tableTokens = Split tableSpec (CHR ''.'');
                     tableName = last tableTokens;
                     dbName = (if length tableTokens = 2 then tableTokens ! 0 else database f)
                 in if dbName = [] then Inl ''Error: No database specified''
                    else Inr (dbName, tableName))))"

text \<open>The end of the process on a fault: \<open>log.Fatal\<close> leaves through \<open>os.Exit\<close>,
  which runs no deferred call; a panic runs the deferred \<open>UnlockTables\<close> when the
  lock was taken.\<close>

definition stop :: "string \<Rightarrow> bool \<Rightarrow> fault \<Rightarrow> session \<Rightarrow> outcome \<times> session" where
  "stop phase locked err s =
     (case err of
        Panic msg \<Rightarrow> (Panicked msg, if locked then snd (UnlockTables s) else s)
      | _ \<Rightarrow> (ExitFatal phase err, s))"

definition finish :: "string \<Rightarrow> bool \<Rightarrow> session \<Rightarrow> outcome \<times> session" where
  "finish line locked s = (Returned line, if locked then snd (UnlockTables s) else s)"

definition new_config :: "Flags \<Rightarrow> string \<Rightarrow> string \<Rightarrow> Config" where
  "new_config f dbName tableName =
     \<lparr>Database = dbName, Table = tableName, UniqueKeyColumnNames = [],
      CountColumnsInUniqueKey = 0, UniqueKeyType = [], UniqueKeyColumnNamesList = [],
      ChunkSize = chunkSize f, StartWith = startWith f, EndWith = endWith f,
      ForcedChunkingColumn = forceColumn f, NoLogBin = noLogBin f\<rparr>"

definition runChunkUpdate ::
  "nat \<Rightarrow> (string \<Rightarrow> string) \<Rightarrow> Flags \<Rightarrow> session \<Rightarrow> (outcome \<times> session) option" where
  "runChunkUpdate fuel special f s =
     (case parse_flags f of
        Inl msg \<Rightarrow> Some (ExitError msg, s)
      | Inr (dbName, tableName) \<Rightarrow>
     (case TableExists dbName tableName s of
        (Inl err, s1) \<Rightarrow> Some (stop ''Table check error:'' False err s1)
      | (Inr ex, s1) \<Rightarrow>
     if \<not> ex then Some (ExitError (''Table '' @ dbName @ ''.'' @ tableName @ '' does not exist''), s1)
     else
     (case GetSelectedUniqueKeyColumnNames special (new_config f dbName tableName) s1 of
        (Inl err, s2) \<Rightarrow> Some (stop ''Unique key error:'' False err s2)
      | (Inr (uniqueKey, count, keyType), s2) \<Rightarrow>
     if uniqueKey = [] then Some (ExitError ''No unique key found'', s2)
     else
     (let c = (new_config f dbName tableName)
                \<lparr>UniqueKeyColumnNames := uniqueKey, CountColumnsInUniqueKey := count,
                 UniqueKeyType := keyType,
                 UniqueKeyColumnNamesList := Split uniqueKey (CHR '','')\<rparr>;
          locked = (\<not> skipLock f)
      in
     (case (if locked then LockTableRead dbName tableName s2 else (Inr (), s2)) of
        (Inl err, s3) \<Rightarrow> Some (stop ''Lock error:'' False err s3)
      | (Inr u, s3) \<Rightarrow>
     (case GetUniqueKeyRange c s3 of
        (Inl err, s4) \<Rightarrow> Some (stop ''Range error:'' locked err s4)
      | (Inr (minValues, maxValues, rangeExists), s4) \<Rightarrow>
     if \<not> rangeExists then Some (finish ''No range to process'' locked s4)
     else
     (case ChunkUpdate fuel c (execute f) s4 of
        None \<Rightarrow> None
      | Some (Inl err, s5) \<Rightarrow> Some (stop ''Chunk error:'' locked err s5)
      | Some (Inr u, s5) \<Rightarrow> Some (finish [] locked s5))))))))"

section \<open>Example sessions\<close>

text \<open>A row of the information schema's answer for one unique index.\<close>

definition index_row :: "string \<Rightarrow> int \<Rightarrow> string \<Rightarrow> (string \<rightharpoonup> val)" where
  "index_row names n ty =
     map_of [(''COLUMN_NAMES'', VStr names), (''COUNT_COLUMN_IN_INDEX'', VInt n),
             (''DATA_TYPE'', VStr ty), (''CHARACTER_SET_NAME'', VNil)]"

text \<open>A statement that changes no key value, such as an \<open>UPDATE\<close> of another
  column, and one that adds \<open>d\<close> to the key of every row it selects, such as
  \<^verbatim>\<open>UPDATE t SET id = id + d WHERE GO_CHUNK(t)\<close>.\<close>

definition keeps_keys :: "val list list \<Rightarrow> val list list \<Rightarrow> val list list" where
  "keeps_keys selected rows = rows"

definition shift_val :: "int \<Rightarrow> val \<Rightarrow> val" where
  "shift_val d v = (case v of VInt i \<Rightarrow> VInt (i + d) | x \<Rightarrow> x)"

definition shifts_keys :: "int \<Rightarrow> val list list \<Rightarrow> val list list \<Rightarrow> val list list" where
  "shifts_keys d selected rows =
     map (\<lambda>r. if r \<in> set selected then map (shift_val d) r else r) rows"

text \<open>A fresh session on an existing table with the given key tuples and unique
  indexes, for a statement that changes no key value: no variable is set, nothing has
  been sent.  \<open>int_session\<close> is the same for a table of integer keys.\<close>

definition table_session :: "val list list \<Rightarrow> (string \<rightharpoonup> val) list \<Rightarrow> session" where
  "table_session ks uk =
     \<lparr>keys = ks, vars = (\<lambda>v. VNil), table_exists = True, unique_keys = uk,
      answers = (\<lambda>q. Inl (DriverError ''You have an error in your SQL syntax'')),
      effect = keeps_keys, calls = [], targeted = []\<rparr>"

definition int_session :: "int list list \<Rightarrow> (string \<rightharpoonup> val) list \<Rightarrow> session" where
  "int_session ks uk = table_session (map (map VInt) ks) uk"

text \<open>The command line \<^verbatim>\<open>--database d --execute <q> --chunk-size <n>\<close>.\<close>

definition update_flags :: "string \<Rightarrow> int \<Rightarrow> Flags" where
  "update_flags q n =
     \<lparr>execute = q, database = ''d'', chunkSize = n, startWith = [], endWith = [],
      forceColumn = [], skipLock = False, noLogBin = False\<rparr>"

text \<open>The configuration \<open>runChunkUpdate\<close> builds for table \<open>d.t\<close> with the integer
  key \<open>id\<close>, the one for the two-column integer key \<open>(a, b)\<close>, and the one for the
  two-column key \<open>(s, i)\<close> whose first column is a text.\<close>

definition single_config :: "int \<Rightarrow> Config" where
  "single_config n =
     \<lparr>Database = ''d'', Table = ''t'', UniqueKeyColumnNames = ''id'',
      CountColumnsInUniqueKey = 1, UniqueKeyType = ''integer'',
      UniqueKeyColumnNamesList = [''id''], ChunkSize = n, StartWith = [], EndWith = [],
      ForcedChunkingColumn = [], NoLogBin = False\<rparr>"

definition composite_config :: "int \<Rightarrow> Config" where
  "composite_config n =
     \<lparr>Database = ''d'', Table = ''t'', UniqueKeyColumnNames = ''a,b'',
      CountColumnsInUniqueKey = 2, UniqueKeyType = ''integer'',
      UniqueKeyColumnNamesList = [''a'', ''b''], ChunkSize = n, StartWith = [], EndWith = [],
      ForcedChunkingColumn = [], NoLogBin = False\<rparr>"

definition text_config :: "int \<Rightarrow> Config" where
  "text_config n =
     \<lparr>Database = ''d'', Table = ''t'', UniqueKeyColumnNames = ''s,i'',
      CountColumnsInUniqueKey = 2, UniqueKeyType = ''text'',
      UniqueKeyColumnNamesList = [''s'', ''i''], ChunkSize = n, StartWith = [], EndWith = [],
      ForcedChunkingColumn = [], NoLogBin = False\<rparr>"

text \<open>A session whose server answers every statement of the user with the given
  row.\<close>

definition answering :: "session \<Rightarrow> (string \<rightharpoonup> val) \<Rightarrow> session" where
  "answering s row = s\<lparr>answers := (\<lambda>q. Inr row)\<rparr>"

text \<open>The first pass of the loop of \<open>ChunkUpdate\<close>, after \<open>GetUniqueKeyRange\<close> and
  the statements in front of the loop.\<close>

definition first_pass :: "Config \<Rightarrow> string \<Rightarrow> session \<Rightarrow> ((fault + bool) \<times> session) option" where
  "first_pass c executeQuery s =
     (case ChunkUpdate_init c executeQuery (snd (GetUniqueKeyRange c s)) of
        (Inl err, s1) \<Rightarrow> None
      | (Inr (first, rest), s1) \<Rightarrow> Some (ChunkUpdate_body c first rest True s1))"


section \<open>Facts about the text helpers\<close>

lemma Split_not_Nil: "Split s sep \<noteq> []"
  by (induction s) (auto split: list.splits)

lemma Split_no_sep: "sep \<notin> set s \<Longrightarrow> Split s sep = [s]"
  by (induction s) auto

lemma Split_at_sep: "sep \<notin> set a \<Longrightarrow> Split (a @ sep # b) sep = a # Split b sep"
  by (induction a) auto

lemma Split_Join:
  "cs \<noteq> [] \<Longrightarrow> \<forall>x\<in>set cs. sep \<notin> set x \<Longrightarrow> Split (Join cs [sep]) sep = cs"
proof (induction cs "[sep]" rule: Join.induct)
  case 1
  then show ?case by simp
next
  case (2 x)
  then show ?case by (simp add: Split_no_sep)
next
  case (3 x y ys)
  then show ?case using Split_at_sep [of sep x] by simp
qed

lemma Contains_single: "Contains s [ch] = (ch \<in> set s)"
  by (induction s) (auto simp: HasPrefix_def)

lemma HasPrefix_append: "HasPrefix (old @ post) old"
  by (simp add: HasPrefix_def)

lemma Replace_Nil: "old \<noteq> [] \<Longrightarrow> Replace [] old new = []"
  by (simp add: Replace.simps)

lemma Replace_hit:
  "old \<noteq> [] \<Longrightarrow> Replace (old @ post) old new = new @ Replace post old new"
  by (subst Replace.simps) (auto simp: HasPrefix_def)

lemma Replace_miss:
  "old \<noteq> [] \<Longrightarrow> \<not> HasPrefix (x # xs) old \<Longrightarrow> Replace (x # xs) old new = x # Replace xs old new"
  by (subst Replace.simps) auto

lemma Replace_absent:
  "old \<noteq> [] \<Longrightarrow> \<not> Contains s old \<Longrightarrow> Replace s old new = s"
  by (induction s) (auto simp: Replace_Nil Replace_miss)

lemma HasPrefix_longer:
  "length old \<le> length s \<Longrightarrow> HasPrefix (s @ t) old = HasPrefix s old"
  by (simp add: HasPrefix_def)

lemma Replace_first:
  "old \<noteq> [] \<Longrightarrow> \<not> Contains (pre @ butlast old) old
     \<Longrightarrow> Replace (pre @ old @ post) old new = pre @ new @ Replace post old new"
proof (induction pre)
  case Nil
  then show ?case by (simp add: Replace_hit)
next
  case (Cons x xs)
  have len: "length old \<le> length ((x # xs) @ butlast old)" by simp
  have "\<not> HasPrefix ((x # xs) @ butlast old) old" using Cons.prems by simp
  moreover have "(x # xs) @ old @ post = ((x # xs) @ butlast old) @ (last old # post)"
    using Cons.prems(1) by simp
  ultimately have "\<not> HasPrefix ((x # xs) @ old @ post) old"
    using HasPrefix_longer [OF len] by metis
  then have "Replace ((x # xs) @ old @ post) old new = x # Replace (xs @ old @ post) old new"
    using Replace_miss [OF Cons.prems(1), of x "xs @ old @ post" new] by simp
  moreover have "\<not> Contains (xs @ butlast old) old" using Cons.prems by simp
  ultimately show ?case using Cons.IH Cons.prems(1) by simp
qed

lemma Replace_once:
  "old \<noteq> [] \<Longrightarrow> \<not> Contains (pre @ butlast old) old \<Longrightarrow> \<not> Contains post old
     \<Longrightarrow> Replace (pre @ old @ post) old new = pre @ new @ post"
  by (simp add: Replace_first Replace_absent)

section \<open>Facts about sequencing and type assertions\<close>

lemma bind_Inl: "m s = (Inl e, s') \<Longrightarrow> bind m f s = (Inl e, s')"
  by (simp add: bind_def)

lemma bind_Inr: "m s = (Inr x, s') \<Longrightarrow> bind m f s = f x s'"
  by (simp add: bind_def)

lemma bind_lift_Inr: "bind (lift (Inr x)) f s = f x s"
  by (simp add: bind_def lift_def)

lemma bind_lift_Inl: "bind (lift (Inl e)) f s = (Inl e, s)"
  by (simp add: bind_def lift_def)

lemma assert_int64_panic:
  "(\<forall>i. v \<noteq> VInt i) \<Longrightarrow> assert_int64 v = Inl (Panic ''interface conversion: interface {} is not int64'')"
  by (cases v) (auto simp: assert_int64_def)

lemma key_vars_one: "CountColumnsInUniqueKey c = 1 \<Longrightarrow> key_vars c f = Inr [(f, 0)]"
  by (simp add: key_vars_def)

lemma seed_min_panic:
  assumes "StartWith c \<noteq> []" "Atoi (StartWith c) = None"
      and "UniqueKeyType c = ''integer''" "CountColumnsInUniqueKey c = 1"
      and "answers s (StartWith c) = Inr row" "\<forall>i. row_get row ''start_with'' \<noteq> VInt i"
  shows "seed_min c minVars s = (Inl (Panic ''interface conversion: interface {} is not int64''),
                         log_call (CallQueryRow (UserQuery (StartWith c))) s)"
  using assms
  by (simp add: seed_min_def bind_def QueryRow_def lift_def assert_int64_panic log_call_def)

lemma seed_max_panic:
  assumes "EndWith c \<noteq> []" "Atoi (EndWith c) = None"
      and "UniqueKeyType c = ''integer''" "CountColumnsInUniqueKey c = 1"
      and "answers s (EndWith c) = Inr row" "\<forall>i. row_get row ''end_with'' \<noteq> VInt i"
  shows "seed_max c maxVars s = (Inl (Panic ''interface conversion: interface {} is not int64''),
                         log_call (CallQueryRow (UserQuery (EndWith c))) s)"
  using assms
  by (simp add: seed_max_def bind_def QueryRow_def lift_def assert_int64_panic log_call_def)

section \<open>Evaluation of the model on concrete sessions\<close>

text \<open>The defining equations, grouped for the simplifier.\<close>

lemmas text_defs = HasPrefix_def match_here_def ToLower_def is_ascii_def lower_char_def digit_char_def
  show_nat.simps show_int_def is_digit_def digit_val_def digits_val_def Atoi_def Replace.simps
  family_name_def var_name_def vars_text_def wrap64_def escape_def

lemmas db_defs = row_get_def assert_int64_def assert_string_def less_val_def val_cmp_def row_cmp_def
  row_gt_def row_ge_def row_lt_def row_le_def low_holds_def val_ge_def lit_val_def order_first_def
  assign_def log_call_def row_map_def Exec_def QueryRow_def
  TableExists_def GetPossibleUniqueKeyColumns_def LockTableRead_def UnlockTables_def
  bind_def ret_def fail_def lift_def

lemmas chunk_defs = classify_def GetSelectedUniqueKeyColumnNames_def key_vars_def
  getUniqueKeyMinValuesVariables_def getUniqueKeyMaxValuesVariables_def
  getUniqueKeyRangeStartVariables_def getUniqueKeyRangeEndVariables_def
  getSessionVariableValue_def seed_min_def seed_max_def GetUniqueKeyRange_def sentinel_def
  firstQuery_def restQuery_def branch_vars_def firstStmt_def restStmt_def single_literal_def
  tuple_literal_def set_range_end_def overflow_check_def ChunkUpdate_body_def
  ChunkUpdate_init_def ChunkUpdate_def parse_flags_def stop_def finish_def new_config_def
  runChunkUpdate_def

lemmas example_defs = index_row_def keeps_keys_def shift_val_def shifts_keys_def table_session_def
  int_session_def update_flags_def single_config_def composite_config_def text_config_def
  answering_def first_pass_def

lemmas eval_simps = numeral_2_eq_2 numeral_3_eq_3 upt_rec sort_key_simps Let_def

section \<open>The chunk driver on concrete tables\<close>

text \<open>
  Claim C1 (coverage): the chunk statements of \<open>ChunkUpdate\<close> together target every
  row whose key lies in \<open>[min, max]\<close>, each in exactly one chunk.

  The program does not do this.  Both templates bound the window above by
  \<open>key < end\<close>, and the next window starts with \<open>key > start\<close> where \<open>start\<close> is the
  previous \<open>end\<close>: the row whose key is the end of a window belongs to no chunk.
  The theorem runs the whole command on the table with ids 1 to 5 and chunk size 2:
  it returns normally after two chunk statements, which target the rows \<open>{1, 2}\<close> and
  \<open>{4}\<close>; the rows 3 and 5 (the maximum) are targeted by no statement.
\<close>

theorem C1_boundary_rows_not_targeted:
  "map_option (\<lambda>(out, s). (out, targeted s))
     (runChunkUpdate 3 special (update_flags ''UPDATE t SET x=1 WHERE GO_CHUNK(t)'' 2)
        (int_session [[1], [2], [3], [4], [5]] [index_row ''id'' 1 ''int'']))
   = Some (Returned [], [[[VInt 1], [VInt 2]], [[VInt 4]]])"
  by (simp add: example_defs text_defs db_defs chunk_defs eval_simps)

text \<open>
  Claim C2 (window advance): for every key arity, at the end of every pass the whole
  end tuple is copied into the start tuple.

  The program copies the first component only: the statement at the end of the loop
  body is \<^verbatim>\<open>SELECT @unique_key_range_end_0 INTO @unique_key_range_start_0\<close> for every arity,
  although the statement that seeds the start in front of the loop copies all \<open>k\<close>
  variables.  The theorem runs the first pass on the table with the two-column key
  \<open>(a, b)\<close> and the rows \<open>(1,1), (1,2), (2,1)\<close>, chunk size 1: after the pass the end of
  the window is \<open>(1,2)\<close> and the start is \<open>(1,1)\<close>.
\<close>

theorem C2_only_first_component_copied:
  "map_option (\<lambda>(r, s). (r, map (vars s) [(RangeEnd, 0), (RangeEnd, 1)],
                            map (vars s) [(RangeStart, 0), (RangeStart, 1)]))
     (first_pass (composite_config 1) ''UPDATE t SET x=1 WHERE GO_CHUNK(t)''
        (int_session [[1, 1], [1, 2], [2, 1]] []))
   = Some (Inr True, [VInt 1, VInt 2], [VInt 1, VInt 1])"
  by (simp add: example_defs text_defs db_defs chunk_defs eval_simps)

text \<open>
  Claim C3 (overflow check): on every pass after the first the check compares
  \<open>start \<ge> max\<close> lexicographically over the whole key tuple, and the loop breaks
  before the chunk statement when it holds.

  The program compares the first components only: the statement is
  \<^verbatim>\<open>SELECT @unique_key_range_start_0 >= @unique_key_max_value_0 AS overflow\<close> for every
  arity.  The theorem runs \<open>ChunkUpdate\<close> on the two-column table with the rows
  \<open>(1,1), (1,2), (1,3)\<close>, chunk size 1: the loop breaks in its second pass, after one
  chunk statement that targets \<open>(1,1)\<close> only, with start \<open>(1,1)\<close> and maximum
  \<open>(1,3)\<close>, although \<open>(1,1) \<ge> (1,3)\<close> is false for the server's row comparison.
\<close>

theorem C3_overflow_compares_first_component:
  "map_option (\<lambda>(r, s). (r, map (vars s) [(RangeStart, 0), (RangeStart, 1)],
                            map (vars s) [(MaxValue, 0), (MaxValue, 1)], targeted s))
     (ChunkUpdate 2 (composite_config 1) ''UPDATE t SET x=1 WHERE GO_CHUNK(t)''
        (snd (GetUniqueKeyRange (composite_config 1) (int_session [[1, 1], [1, 2], [1, 3]] []))))
   = Some (Inr (), [VInt 1, VInt 1], [VInt 1, VInt 3], [[[VInt 1, VInt 1]]])
   \<and> row_ge [VInt 1, VInt 1] [VInt 1, VInt 3] = False"
  by (simp add: example_defs text_defs db_defs chunk_defs eval_simps)

text \<open>
  Claim C4 (template rewrite): for a sentinel \<open>GO_CHUNK(name)\<close> or
  \<open>GO_CHUNK(db.name)\<close> both templates contain no sentinel after the rewrite.

  For the qualified form the program replaces nothing: \<open>runChunkUpdate\<close> keeps the
  last token of \<open>db.name\<close> as the table name and \<open>ChunkUpdate\<close> looks for
  \<open>GO_CHUNK(name)\<close>, which the statement does not contain.  The theorem runs the
  command on \<^verbatim>\<open>UPDATE db.users SET s=1 WHERE GO_CHUNK(db.users)\<close>: the flags pass the
  checks with database \<open>db\<close> and table \<open>users\<close>, the first chunk statement is sent
  with the sentinel still in it, and the run ends with the server's error.
\<close>

theorem C4_qualified_sentinel_not_replaced:
  "parse_flags (update_flags ''UPDATE db.users SET s=1 WHERE GO_CHUNK(db.users)'' 1000)
     = Inr (''db'', ''users'')
   \<and> map_option (\<lambda>(out, s). (out, last (calls s)))
       (runChunkUpdate 1 special
          (update_flags ''UPDATE db.users SET s=1 WHERE GO_CHUNK(db.users)'' 1000)
          (int_session [[1], [2], [3]] [index_row ''id'' 1 ''int'']))
     = Some (ExitFatal ''Chunk error:'' (DriverError ''FUNCTION GO_CHUNK does not exist''),
             CallExec (ChunkStmt ''UPDATE db.users SET s=1 WHERE GO_CHUNK(db.users)''
                         GreaterEq [(MinValue, 0)] [(RangeEnd, 0)]))"
  by (simp add: example_defs text_defs db_defs chunk_defs eval_simps)

text \<open>
  Claim C6 (negative chunk size): a negative \<open>--chunk-size\<close> is rejected with a
  validation message before any database work.

  The program has no check of the chunk size.  The theorem runs the command with
  \<open>--chunk-size -1\<close>: the flags pass the checks, the table is looked up and locked,
  the bounds are read, and the first probe goes to the server with \<open>LIMIT -1\<close>; the
  process ends with the server's error for that statement.
\<close>

theorem C6_negative_chunk_size_reaches_server:
  "parse_flags (update_flags ''UPDATE t SET x=1 WHERE GO_CHUNK(t)'' (- 1)) = Inr (''d'', ''t'')
   \<and> map_option (\<lambda>(out, s). (out, calls s))
       (runChunkUpdate 1 special (update_flags ''UPDATE t SET x=1 WHERE GO_CHUNK(t)'' (- 1))
          (int_session [[1], [2], [3]] [index_row ''id'' 1 ''int'']))
     = Some (ExitFatal ''Chunk error:'' (DriverError ''You have an error in your SQL syntax''),
             [CallTableExists ''d'' ''t'',
              CallGetPossibleUniqueKeyColumns ''d'' ''t'',
              CallLockTableRead ''d'' ''t'',
              CallExec (SelectKeyInto Asc [''id''] [(MinValue, 0)]),
              CallExec (SelectKeyInto Desc [''id''] [(MaxValue, 0)]),
              CallQueryRow RangeExists,
              CallQueryRow (SelectVar (MinValue, 0)),
              CallQueryRow (SelectVar (MaxValue, 0)),
              CallQueryRow (SelectVar (MinValue, 0)),
              CallQueryRow (SelectVar (MaxValue, 0)),
              CallExec (SelectVarsInto [(MinValue, 0)] [(RangeStart, 0)]),
              CallQueryRow (Probe [''id''] [(RangeStart, 0)] [(MaxValue, 0)] (- 1))])"
  by (simp add: example_defs text_defs db_defs chunk_defs eval_simps)

section \<open>The statement templates\<close>

text \<open>
  Claim C7 (templates): for a single-column key, \<open>firstQuery\<close> is the user's statement
  with the sentinel replaced by \<open>key >= @min AND key < @end\<close>, and \<open>restQuery\<close> the
  same with \<open>key > @start AND key < @end\<close>; for \<open>k > 1\<close> columns the same forms are
  comparisons of the parenthesised column list with the parenthesised list of all
  \<open>k\<close> variables.

  The program does this for the sentinel \<open>GO_CHUNK(name)\<close> only.  The sentinel
  \<open>GO_CHUNK(db.name)\<close> passes the checks of \<open>runChunkUpdate\<close>, which keeps \<open>name\<close> as the
  table of the configuration; \<open>ChunkUpdate\<close> then looks for \<open>GO_CHUNK(name)\<close>, and both
  templates are the user's statement as it was, for one column and for several.  The
  theorem shows this for \<^verbatim>\<open>UPDATE db.users SET s=1 WHERE GO_CHUNK(db.users)\<close>, next to
  the templates of the same configurations for the statement with the sentinel
  \<open>GO_CHUNK(users)\<close>.
\<close>

theorem C7_qualified_sentinel_stays_in_templates:
  "parse_flags (update_flags ''UPDATE db.users SET s=1 WHERE GO_CHUNK(db.users)'' 1000)
     = Inr (''db'', ''users'')
   \<and> firstQuery ((single_config 1000)\<lparr>Database := ''db'', Table := ''users''\<rparr>)
       ''UPDATE db.users SET s=1 WHERE GO_CHUNK(db.users)''
     = Inr ''UPDATE db.users SET s=1 WHERE GO_CHUNK(db.users)''
   \<and> restQuery ((single_config 1000)\<lparr>Database := ''db'', Table := ''users''\<rparr>)
       ''UPDATE db.users SET s=1 WHERE GO_CHUNK(db.users)''
     = Inr ''UPDATE db.users SET s=1 WHERE GO_CHUNK(db.users)''
   \<and> firstQuery ((composite_config 1000)\<lparr>Database := ''db'', Table := ''users''\<rparr>)
       ''UPDATE db.users SET s=1 WHERE GO_CHUNK(db.users)''
     = Inr ''UPDATE db.users SET s=1 WHERE GO_CHUNK(db.users)''
   \<and> restQuery ((composite_config 1000)\<lparr>Database := ''db'', Table := ''users''\<rparr>)
       ''UPDATE db.users SET s=1 WHERE GO_CHUNK(db.users)''
     = Inr ''UPDATE db.users SET s=1 WHERE GO_CHUNK(db.users)''
   \<and> firstQuery ((single_config 1000)\<lparr>Database := ''db'', Table := ''users''\<rparr>)
       ''UPDATE users SET s=1 WHERE GO_CHUNK(users)''
     = Inr ''UPDATE users SET s=1 WHERE id >= @unique_key_min_value_0 AND id < @unique_key_range_end_0''
   \<and> restQuery ((single_config 1000)\<lparr>Database := ''db'', Table := ''users''\<rparr>)
       ''UPDATE users SET s=1 WHERE GO_CHUNK(users)''
     = Inr ''UPDATE users SET s=1 WHERE id > @unique_key_range_start_0 AND id < @unique_key_range_end_0''
   \<and> firstQuery ((composite_config 1000)\<lparr>Database := ''db'', Table := ''users''\<rparr>)
       ''UPDATE users SET s=1 WHERE GO_CHUNK(users)''
     = Inr ''UPDATE users SET s=1 WHERE (a,b) >= (@unique_key_min_value_0,@unique_key_min_value_1) AND (a,b) < (@unique_key_range_end_0,@unique_key_range_end_1)''
   \<and> restQuery ((composite_config 1000)\<lparr>Database := ''db'', Table := ''users''\<rparr>)
       ''UPDATE users SET s=1 WHERE GO_CHUNK(users)''
     = Inr ''UPDATE users SET s=1 WHERE (a,b) > (@unique_key_range_start_0,@unique_key_range_start_1) AND (a,b) < (@unique_key_range_end_0,@unique_key_range_end_1)''"
  by (simp add: example_defs text_defs chunk_defs eval_simps)

section \<open>The range initializer\<close>

lemma GetUniqueKeyRange_negative_count:
  "CountColumnsInUniqueKey c < 0 \<Longrightarrow>
   GetUniqueKeyRange c s = (Inl (Panic ''makeslice: len out of range''), s)"
  by (simp add: GetUniqueKeyRange_def key_vars_def bind_lift_Inl)

text \<open>
  Claim C8 (\<open>--start-with\<close> on an unsupported key): when \<open>StartWith\<close> is not empty
  and the key is not a single integer column, \<open>GetUniqueKeyRange\<close> returns the error
  "--start-with only applies to single column integer chunking keys" and has sent
  nothing to the server (the session, with its history of calls, is unchanged).  The
  number of key columns is not negative.
\<close>

theorem C8_start_with_rejected:
  "StartWith c \<noteq> [] \<and> 0 \<le> CountColumnsInUniqueKey c
     \<and> \<not> (UniqueKeyType c = ''integer'' \<and> CountColumnsInUniqueKey c = 1)
   \<longrightarrow> GetUniqueKeyRange c s =
         (Inl (Errorf ''--start-with only applies to single column integer chunking keys''), s)"
  by (auto simp: GetUniqueKeyRange_def key_vars_def lift_def seed_min_def bind_def fail_def)

theorem C8_start_with_rejected_witness:
  "GetUniqueKeyRange ((composite_config 1000)\<lparr>StartWith := ''1''\<rparr>)
       (int_session [[1, 1], [1, 2]] [])
     = (Inl (Errorf ''--start-with only applies to single column integer chunking keys''),
        int_session [[1, 1], [1, 2]] [])
   \<and> GetUniqueKeyRange ((single_config 1000)\<lparr>StartWith := ''1'', UniqueKeyType := ''text''\<rparr>)
       (int_session [[1], [2]] [])
     = (Inl (Errorf ''--start-with only applies to single column integer chunking keys''),
        int_session [[1], [2]] [])"
  using C8_start_with_rejected [of "(composite_config 1000)\<lparr>StartWith := ''1''\<rparr>"
          "int_session [[1, 1], [1, 2]] []"]
        C8_start_with_rejected [of "(single_config 1000)\<lparr>StartWith := ''1'', UniqueKeyType := ''text''\<rparr>"
          "int_session [[1], [2]] []"]
  by (simp add: composite_config_def single_config_def)

text \<open>
  Claim C10 (unchecked type assertion): when \<open>StartWith\<close> is not empty, is not an
  integer literal, and the key is a single integer column, \<open>GetUniqueKeyRange\<close> sends
  it as a query; if the row of the answer has no \<open>int64\<close> under \<open>start_with\<close> (the
  column is missing or holds another type) the function panics, after that one call.
  The same holds for \<open>EndWith\<close> and the column \<open>end_with\<close>, once the lower bound has
  been set without error.
\<close>

theorem C10_type_assertion_panics:
  "(StartWith c \<noteq> [] \<and> Atoi (StartWith c) = None
      \<and> UniqueKeyType c = ''integer'' \<and> CountColumnsInUniqueKey c = 1
      \<and> answers s (StartWith c) = Inr row \<and> (\<forall>i. row_get row ''start_with'' \<noteq> VInt i)
    \<longrightarrow> GetUniqueKeyRange c s =
          (Inl (Panic ''interface conversion: interface {} is not int64''),
           s\<lparr>calls := calls s @ [CallQueryRow (UserQuery (StartWith c))]\<rparr>))
   \<and> (seed_min c [(MinValue, 0)] s = (Inr (), s1) \<and> EndWith c \<noteq> [] \<and> Atoi (EndWith c) = None
      \<and> UniqueKeyType c = ''integer'' \<and> CountColumnsInUniqueKey c = 1
      \<and> answers s1 (EndWith c) = Inr row \<and> (\<forall>i. row_get row ''end_with'' \<noteq> VInt i)
    \<longrightarrow> GetUniqueKeyRange c s =
          (Inl (Panic ''interface conversion: interface {} is not int64''),
           s1\<lparr>calls := calls s1 @ [CallQueryRow (UserQuery (EndWith c))]\<rparr>))"
proof (intro conjI impI)
  assume h: "StartWith c \<noteq> [] \<and> Atoi (StartWith c) = None
      \<and> UniqueKeyType c = ''integer'' \<and> CountColumnsInUniqueKey c = 1
      \<and> answers s (StartWith c) = Inr row \<and> (\<forall>i. row_get row ''start_with'' \<noteq> VInt i)"
  then have "seed_min c [(MinValue, 0)] s
               = (Inl (Panic ''interface conversion: interface {} is not int64''),
                  log_call (CallQueryRow (UserQuery (StartWith c))) s)"
    by (intro seed_min_panic) auto
  with h show "GetUniqueKeyRange c s =
          (Inl (Panic ''interface conversion: interface {} is not int64''),
           s\<lparr>calls := calls s @ [CallQueryRow (UserQuery (StartWith c))]\<rparr>)"
    by (simp add: GetUniqueKeyRange_def key_vars_one bind_lift_Inr bind_Inl log_call_def)
next
  assume h: "seed_min c [(MinValue, 0)] s = (Inr (), s1) \<and> EndWith c \<noteq> [] \<and> Atoi (EndWith c) = None
      \<and> UniqueKeyType c = ''integer'' \<and> CountColumnsInUniqueKey c = 1
      \<and> answers s1 (EndWith c) = Inr row \<and> (\<forall>i. row_get row ''end_with'' \<noteq> VInt i)"
  then have "seed_max c [(MaxValue, 0)] s1
               = (Inl (Panic ''interface conversion: interface {} is not int64''),
                  log_call (CallQueryRow (UserQuery (EndWith c))) s1)"
    by (intro seed_max_panic) auto
  with h show "GetUniqueKeyRange c s =
          (Inl (Panic ''interface conversion: interface {} is not int64''),
           s1\<lparr>calls := calls s1 @ [CallQueryRow (UserQuery (EndWith c))]\<rparr>)"
    by (simp add: GetUniqueKeyRange_def key_vars_one bind_lift_Inr bind_Inl bind_Inr log_call_def)
qed

theorem C10_type_assertion_panics_witness:
  "fst (GetUniqueKeyRange ((single_config 1000)\<lparr>StartWith := ''SELECT MIN(id) FROM t''\<rparr>)
          (answering (int_session [[1], [2]] []) (map_of [(''MIN(id)'', VInt 1)])))
     = Inl (Panic ''interface conversion: interface {} is not int64'')
   \<and> fst (GetUniqueKeyRange ((single_config 1000)\<lparr>EndWith := ''SELECT '9' AS end_with''\<rparr>)
          (answering (int_session [[1], [2]] []) (map_of [(''end_with'', VStr ''9'')])))
     = Inl (Panic ''interface conversion: interface {} is not int64'')"
proof -
  let ?c1 = "(single_config 1000)\<lparr>StartWith := ''SELECT MIN(id) FROM t''\<rparr>"
  let ?s1 = "answering (int_session [[1], [2]] []) (map_of [(''MIN(id)'', VInt 1)])"
  let ?c2 = "(single_config 1000)\<lparr>EndWith := ''SELECT '9' AS end_with''\<rparr>"
  let ?s2 = "answering (int_session [[1], [2]] []) (map_of [(''end_with'', VStr ''9'')])"
  have h1: "StartWith ?c1 \<noteq> [] \<and> Atoi (StartWith ?c1) = None
      \<and> UniqueKeyType ?c1 = ''integer'' \<and> CountColumnsInUniqueKey ?c1 = 1
      \<and> answers ?s1 (StartWith ?c1) = Inr (map_of [(''MIN(id)'', VInt 1)])
      \<and> (\<forall>i. row_get (map_of [(''MIN(id)'', VInt 1)]) ''start_with'' \<noteq> VInt i)"
    by (simp add: single_config_def answering_def int_session_def table_session_def Atoi_def
          is_digit_def row_get_def)
  have h2: "seed_min ?c2 [(MinValue, 0)] ?s2 = (Inr (), snd (seed_min ?c2 [(MinValue, 0)] ?s2))
      \<and> EndWith ?c2 \<noteq> []
      \<and> Atoi (EndWith ?c2) = None
      \<and> UniqueKeyType ?c2 = ''integer'' \<and> CountColumnsInUniqueKey ?c2 = 1
      \<and> answers (snd (seed_min ?c2 [(MinValue, 0)] ?s2)) (EndWith ?c2)
           = Inr (map_of [(''end_with'', VStr ''9'')])
      \<and> (\<forall>i. row_get (map_of [(''end_with'', VStr ''9'')]) ''end_with'' \<noteq> VInt i)"
    by (simp add: single_config_def answering_def int_session_def table_session_def Atoi_def
          is_digit_def row_get_def seed_min_def bind_def ret_def Exec_def order_first_def
          log_call_def assign_def less_val_def eval_simps)
  from h1 C10_type_assertion_panics [where c = ?c1 and s = ?s1 and row = "map_of [(''MIN(id)'', VInt 1)]"]
  have g1: "fst (GetUniqueKeyRange ?c1 ?s1) = Inl (Panic ''interface conversion: interface {} is not int64'')"
    by simp
  from h2 C10_type_assertion_panics [where c = ?c2 and s = ?s2
                 and ?s1.0 = "snd (seed_min ?c2 [(MinValue, 0)] ?s2)"
                 and row = "map_of [(''end_with'', VStr ''9'')]"]
  have g2: "fst (GetUniqueKeyRange ?c2 ?s2) = Inl (Panic ''interface conversion: interface {} is not int64'')"
    by simp
  from g1 g2 show ?thesis by blast
qed

section \<open>The key discoverer\<close>

lemma forced_kind:
  assumes "CHR '','' \<notin> set col" "CHR '':'' \<notin> set col"
      and "CHR '','' \<notin> set kind" "CHR '':'' \<notin> set kind"
  shows "GetSelectedUniqueKeyColumnNames special (c\<lparr>ForcedChunkingColumn := col @ '':'' @ kind\<rparr>) s
           = (Inr (col, 1, kind), s)"
proof -
  have a: "Split (col @ '':'' @ kind) (CHR '','') = [col @ '':'' @ kind]"
    using assms by (intro Split_no_sep) auto
  have b: "Split (col @ '':'' @ kind) (CHR '':'') = [col, kind]"
    using assms Split_at_sep [of "CHR '':''" col kind] by (simp add: Split_no_sep)
  show ?thesis using a b
    by (simp add: GetSelectedUniqueKeyColumnNames_def Contains_single ret_def Let_def)
qed

lemma forced_bare:
  assumes "col \<noteq> []" "CHR '','' \<notin> set col" "CHR '':'' \<notin> set col"
  shows "GetSelectedUniqueKeyColumnNames special (c\<lparr>ForcedChunkingColumn := col\<rparr>) s
           = (Inr (col, 1, []), s)"
  using assms
  by (simp add: GetSelectedUniqueKeyColumnNames_def Split_no_sep Contains_single ret_def Let_def)

lemma Join_not_Nil: "2 \<le> length cs \<Longrightarrow> Join cs [sep] \<noteq> []"
proof -
  assume "2 \<le> length cs"
  then obtain x y ys where "cs = x # y # ys"
    by (cases cs; cases "tl cs") auto
  then show ?thesis by simp
qed

lemma forced_list:
  assumes "length cols \<ge> 2" "\<forall>x\<in>set cols. CHR '','' \<notin> set x"
  shows "GetSelectedUniqueKeyColumnNames special (c\<lparr>ForcedChunkingColumn := Join cols '',''\<rparr>) s
           = (Inr (Join cols '','', int (length cols), []), s)"
proof -
  have "cols \<noteq> []" using assms by auto
  then have a: "Split (Join cols '','') (CHR '','') = cols"
    using assms Split_Join [of cols "CHR '',''"] by simp
  show ?thesis using assms Join_not_Nil [of cols "CHR '',''"]
    by (simp add: GetSelectedUniqueKeyColumnNames_def a ret_def Let_def)
qed

text \<open>
  Claim C9 (forced chunking column): a specification \<open>col:kind\<close> makes
  \<open>GetSelectedUniqueKeyColumnNames\<close> return \<open>(col, 1, kind)\<close>; a bare \<open>col\<close> gives
  \<open>(col, 1, "")\<close>; a list \<open>c1,c2,...\<close> of two or more columns gives the list as
  written, its length, and the empty classification.  In all three cases the session
  is returned unchanged: the schema is not queried, and the answer does not depend
  on it.  Column and kind names contain no comma and no colon; column names of a list
  contain no comma.
\<close>

theorem C9_forced_key:
  "(CHR '','' \<notin> set col \<and> CHR '':'' \<notin> set col \<and> CHR '','' \<notin> set kind \<and> CHR '':'' \<notin> set kind
      \<longrightarrow> GetSelectedUniqueKeyColumnNames special (c\<lparr>ForcedChunkingColumn := col @ '':'' @ kind\<rparr>) s
            = (Inr (col, 1, kind), s))
   \<and> (col \<noteq> [] \<and> CHR '','' \<notin> set col \<and> CHR '':'' \<notin> set col
      \<longrightarrow> GetSelectedUniqueKeyColumnNames special (c\<lparr>ForcedChunkingColumn := col\<rparr>) s
            = (Inr (col, 1, []), s))
   \<and> (2 \<le> length cols \<and> (\<forall>x\<in>set cols. CHR '','' \<notin> set x)
      \<longrightarrow> GetSelectedUniqueKeyColumnNames special (c\<lparr>ForcedChunkingColumn := Join cols '',''\<rparr>) s
            = (Inr (Join cols '','', int (length cols), []), s))"
  using forced_kind [of col kind special c s] forced_bare [of col special c s] forced_list [of cols special c s]
  by blast

theorem C9_forced_key_witness:
  "GetSelectedUniqueKeyColumnNames id ((single_config 1000)\<lparr>ForcedChunkingColumn := ''id:integer''\<rparr>)
       (int_session [[1]] [index_row ''name'' 1 ''varchar''])
     = (Inr (''id'', 1, ''integer''), int_session [[1]] [index_row ''name'' 1 ''varchar''])
   \<and> GetSelectedUniqueKeyColumnNames id ((single_config 1000)\<lparr>ForcedChunkingColumn := ''id''\<rparr>)
       (int_session [[1]] [index_row ''name'' 1 ''varchar''])
     = (Inr (''id'', 1, []), int_session [[1]] [index_row ''name'' 1 ''varchar''])
   \<and> GetSelectedUniqueKeyColumnNames id ((single_config 1000)\<lparr>ForcedChunkingColumn := ''col1,col2''\<rparr>)
       (int_session [[1]] [index_row ''name'' 1 ''varchar''])
     = (Inr (''col1,col2'', 2, []), int_session [[1]] [index_row ''name'' 1 ''varchar''])"
  using C9_forced_key [of "''id''" "''integer''" id "single_config 1000"
          "int_session [[1]] [index_row ''name'' 1 ''varchar'']" "[''col1'', ''col2'']"]
  by simp

end
